theory Spec2Isabelle
  imports Complex_Main "HOL-Library.AList" "HOL-Library.Log_Nat"
begin

section \<open>The donor-kidney risk score of \<^verbatim>\<open>app.py\<close>\<close>

text \<open>
  The scoring engine is the function \<^verbatim>\<open>calcular_score_risco\<close>: seven inputs, a dictionary
  of per-factor points and a percentage. The model below follows it statement by statement.

  \<^item> \<^verbatim>\<open>idade\<close> is an integer (the input widget is built from integer bounds), so it is an
    \<open>int\<close>.
  \<^item> \<^verbatim>\<open>creatinina\<close> and \<^verbatim>\<open>tempo_isquemia\<close> may be decimal numbers. Every Python float is a
    rational number, and Python compares numbers by their exact values, so they are
    \<open>rat\<close>; the thresholds 1.5 and 2.5 are the fractions 3/2 and 5/2, which binary
    floating point holds exactly.
  \<^item> The dictionary \<^verbatim>\<open>fatores_risco\<close> is an association list in insertion order; the
    assignment \<^verbatim>\<open>d[k] = v\<close> is \<open>AList.update\<close> (replace the value of a key that is there,
    append a new key at the end).
  \<^item> A Python float is an IEEE 754 binary64 number. A finite one is the rational number it
    denotes; \<open>round_double\<close> rounds a rational to the nearest binary64 number, ties to
    the even significand, with the subnormal range below \<open>2 powi (- 1022)\<close> and overflow
    to an infinity from \<open>2 powi 1024\<close> on. The two zeros are one value, since Python
    compares them equal, and no operation of the program yields a NaN.
  \<^item> The true division \<^verbatim>\<open>/\<close> of two integers raises \<^verbatim>\<open>ZeroDivisionError\<close> on a zero divisor
    and \<^verbatim>\<open>OverflowError\<close> when the quotient is too large for a float; otherwise it returns
    the float nearest to the exact quotient. It returns a sum type, and the whole function
    does too.
  \<^item> The product \<^verbatim>\<open>(score_bruto / 190) * 100\<close> converts 100 to the float 100.0, which is
    exact, and rounds the exact product of the two floats.
\<close>

subsection \<open>Errors and dictionaries\<close>

datatype py_error = ZeroDivisionError | OverflowError

type_synonym py_dict = "(string \<times> int) list"

subsection \<open>Binary64 floating point\<close>

text \<open>A float: a finite binary64 number, given by its value, or one of the two infinities.\<close>

datatype py_float = Finite rat | PosInf | NegInf

text \<open>
  The binary exponent of a nonzero rational: the \<open>e\<close> with
  \<open>2 powi e \<le> \<bar>x\<bar> < 2 powi (e + 1)\<close>. The difference of the bit lengths of the numerator
  and the denominator is this exponent or one more.
\<close>

definition exponent :: "rat \<Rightarrow> int" where
  "exponent x =
     (case quotient_of \<bar>x\<bar> of
        (a, b) \<Rightarrow>
          (let d = bitlen a - bitlen b
           in if 2 powi d \<le> \<bar>x\<bar> then d else d - 1))"

text \<open>The nearest integer, a tie going to the even one.\<close>

definition round_half_even :: "rat \<Rightarrow> int" where
  "round_half_even m =
     (let f = \<lfloor>m\<rfloor>; r = m - rat_of_int f
      in if r < 1 / 2 then f else if 1 / 2 < r then f + 1
         else if even f then f else f + 1)"

text \<open>
  Round to nearest, ties to even, with a significand of 53 bits: the unit in the last
  place is \<open>2 powi (e - 52)\<close> for the exponent \<open>e\<close> of the argument, and never below
  \<open>2 powi (- 1074)\<close>.
\<close>

definition round_double :: "rat \<Rightarrow> py_float" where
  "round_double x =
     (if x = 0 then Finite 0
      else let e = max (exponent x) (- 1022);
               ulp = 2 powi (e - 52);
               r = rat_of_int (round_half_even (x / ulp)) * ulp
           in if 2 powi 1024 \<le> r then PosInf
              else if r \<le> - (2 powi 1024) then NegInf
              else Finite r)"

subsection \<open>Python primitives\<close>

text \<open>\<^verbatim>\<open>a / b\<close> on two Python integers: the result is a finite float or an error.\<close>

definition truediv :: "int \<Rightarrow> int \<Rightarrow> py_error + rat" where
  "truediv a b =
     (if b = 0 then Inl ZeroDivisionError
      else case round_double (rat_of_int a / rat_of_int b) of
             Finite q \<Rightarrow> Inr q
           | PosInf \<Rightarrow> Inl OverflowError
           | NegInf \<Rightarrow> Inl OverflowError)"

text \<open>\<^verbatim>\<open>x * y\<close> on two finite floats: it never raises, and overflows to an infinity.\<close>

definition float_mul :: "rat \<Rightarrow> rat \<Rightarrow> py_float" where
  "float_mul x y = round_double (x * y)"

text \<open>\<^verbatim>\<open>sum(d.values())\<close>.\<close>

definition sum_values :: "py_dict \<Rightarrow> int" where
  "sum_values d = sum_list (map snd d)"

subsection \<open>The labels\<close>

text \<open>
  The keys the function writes. A Python string is a sequence of code points; the label
  of the hypertension factor holds U+00E3 (a with tilde) between \<^verbatim>\<open>Hipertens\<close> and \<^verbatim>\<open>o\<close>,
  which is the single character \<open>CHR 0xE3\<close> here.
\<close>

definition label_idade :: string where
  "label_idade = ''Idade''"

definition label_creatinina :: string where
  "label_creatinina = ''Creatinina''"

definition label_has :: string where
  "label_has = ''Hipertens'' @ [CHR 0xE3] @ ''o''"

definition label_dm :: string where
  "label_dm = ''Diabetes''"

definition label_isquemia :: string where
  "label_isquemia = ''Tempo de Isquemia''"

definition label_pcr :: string where
  "label_pcr = ''PCR''"

definition label_hcv :: string where
  "label_hcv = ''Hepatite C''"

subsection \<open>The three tiered factors\<close>

text \<open>Lines 23 to 30: the \<^verbatim>\<open>if\<close>/\<^verbatim>\<open>elif\<close> chain that sets \<^verbatim>\<open>pontos_idade\<close>.\<close>

definition pontos_idade :: "int \<Rightarrow> int" where
  "pontos_idade idade =
     (if 40 \<le> idade \<and> idade \<le> 49 then 15
      else if 50 \<le> idade \<and> idade \<le> 59 then 25
      else if idade \<ge> 60 then 40
      else 0)"

text \<open>Lines 35 to 40: the chain that sets \<^verbatim>\<open>pontos_creatinina\<close>.\<close>

definition pontos_creatinina :: "rat \<Rightarrow> int" where
  "pontos_creatinina creatinina =
     (if 3 / 2 \<le> creatinina \<and> creatinina \<le> 5 / 2 then 20
      else if creatinina > 5 / 2 then 35
      else 0)"

text \<open>Lines 55 to 62: the chain that sets \<^verbatim>\<open>pontos_isquemia\<close>.\<close>

definition pontos_isquemia :: "rat \<Rightarrow> int" where
  "pontos_isquemia tempo_isquemia =
     (if 12 \<le> tempo_isquemia \<and> tempo_isquemia \<le> 20 then 15
      else if 21 \<le> tempo_isquemia \<and> tempo_isquemia \<le> 28 then 25
      else if tempo_isquemia > 28 then 35
      else 0)"

subsection \<open>The scoring function\<close>

text \<open>
  Lines 14 to 84. Each \<open>d\<close> is the dictionary after one more factor; the last step is the
  sum, the division by \<^verbatim>\<open>score_maximo_possivel\<close> and the multiplication by 100, both in
  floating point.
\<close>

definition calcular_score_risco ::
  "int \<Rightarrow> rat \<Rightarrow> bool \<Rightarrow> bool \<Rightarrow> rat \<Rightarrow> bool \<Rightarrow> bool \<Rightarrow>
     py_error + (py_float \<times> py_dict)" where
  "calcular_score_risco idade creatinina has dm tempo_isquemia pcr hcv =
     (let d0 = [];
          d1 = (if pontos_idade idade > 0
                then AList.update label_idade (pontos_idade idade) d0 else d0);
          d2 = (if pontos_creatinina creatinina > 0
                then AList.update label_creatinina (pontos_creatinina creatinina) d1 else d1);
          d3 = (if has then AList.update label_has 25 d2 else d2);
          d4 = (if dm then AList.update label_dm 30 d3 else d3);
          d5 = (if pontos_isquemia tempo_isquemia > 0
                then AList.update label_isquemia (pontos_isquemia tempo_isquemia) d4 else d4);
          d6 = (if pcr then AList.update label_pcr 15 d5 else d5);
          fatores_risco = (if hcv then AList.update label_hcv 10 d6 else d6);
          score_bruto = sum_values fatores_risco;
          score_maximo_possivel = 190
      in case truediv score_bruto score_maximo_possivel of
           Inl e \<Rightarrow> Inl e
         | Inr q \<Rightarrow> Inr (float_mul q 100, fatores_risco))"

subsection \<open>The risk band\<close>

text \<open>
  Lines 124 to 132: the branch that picks the banner from the score. The three banners
  are \<^verbatim>\<open>RISCO BAIXO\<close> (low), \<^verbatim>\<open>RISCO MODERADO\<close> (moderate) and \<^verbatim>\<open>RISCO ALTO\<close> (high).
\<close>

datatype risk_band = RISCO_BAIXO | RISCO_MODERADO | RISCO_ALTO

definition classify :: "rat \<Rightarrow> risk_band" where
  "classify score =
     (if score < 30 then RISCO_BAIXO
      else if 30 \<le> score \<and> score < 60 then RISCO_MODERADO
      else RISCO_ALTO)"

text \<open>The order of the bands by severity, to state that \<open>classify\<close> is monotonic.\<close>

definition band_rank :: "risk_band \<Rightarrow> nat" where
  "band_rank b = (case b of RISCO_BAIXO \<Rightarrow> 0 | RISCO_MODERADO \<Rightarrow> 1 | RISCO_ALTO \<Rightarrow> 2)"

subsection \<open>The declared input domain\<close>

text \<open>
  The domains of the three numeric fields: age in [0, 120], serum creatinine in (0, 15],
  cold ischemia time at least 0. The four flags are unconstrained.
\<close>

definition in_domain :: "int \<Rightarrow> rat \<Rightarrow> rat \<Rightarrow> bool" where
  "in_domain idade creatinina tempo_isquemia =
     (0 \<le> idade \<and> idade \<le> 120 \<and> 0 < creatinina \<and> creatinina \<le> 15 \<and> 0 \<le> tempo_isquemia)"

subsection \<open>What the function returns, in closed form\<close>

text \<open>
  The entry a factor adds, the points of a flag, the dictionary the function builds
  written as one list, and the sum of its values. These four serve the proofs only:
  \<open>calcular_score_risco_eq\<close> shows that the function returns exactly this dictionary and
  the floating-point percentage of this sum.
\<close>

definition entry :: "string \<Rightarrow> int \<Rightarrow> py_dict" where
  "entry k v = (if v > 0 then [(k, v)] else [])"

definition flag :: "bool \<Rightarrow> int \<Rightarrow> int" where
  "flag b v = (if b then v else 0)"

definition fatores ::
  "int \<Rightarrow> rat \<Rightarrow> bool \<Rightarrow> bool \<Rightarrow> rat \<Rightarrow> bool \<Rightarrow> bool \<Rightarrow> py_dict" where
  "fatores idade creatinina has dm tempo_isquemia pcr hcv =
     entry label_idade (pontos_idade idade) @
     entry label_creatinina (pontos_creatinina creatinina) @
     entry label_has (flag has 25) @
     entry label_dm (flag dm 30) @
     entry label_isquemia (pontos_isquemia tempo_isquemia) @
     entry label_pcr (flag pcr 15) @
     entry label_hcv (flag hcv 10)"

definition bruto :: "int \<Rightarrow> rat \<Rightarrow> bool \<Rightarrow> bool \<Rightarrow> rat \<Rightarrow> bool \<Rightarrow> bool \<Rightarrow> int" where
  "bruto idade creatinina has dm tempo_isquemia pcr hcv =
     pontos_idade idade + pontos_creatinina creatinina + flag has 25 + flag dm 30 +
     pontos_isquemia tempo_isquemia + flag pcr 15 + flag hcv 10"

section \<open>Properties\<close>

subsection \<open>Ranges of the factors\<close>

lemma pontos_idade_cases: "pontos_idade i \<in> {0, 15, 25, 40}"
  by (simp add: pontos_idade_def)

lemma pontos_creatinina_cases: "pontos_creatinina c \<in> {0, 20, 35}"
  by (simp add: pontos_creatinina_def)

lemma pontos_isquemia_cases: "pontos_isquemia t \<in> {0, 15, 25, 35}"
  by (simp add: pontos_isquemia_def)

lemma pontos_idade_range: "0 \<le> pontos_idade i \<and> pontos_idade i \<le> 40"
  by (simp add: pontos_idade_def)

lemma pontos_creatinina_range: "0 \<le> pontos_creatinina c \<and> pontos_creatinina c \<le> 35"
  by (simp add: pontos_creatinina_def)

lemma pontos_isquemia_range: "0 \<le> pontos_isquemia t \<and> pontos_isquemia t \<le> 35"
  by (simp add: pontos_isquemia_def)

subsection \<open>Rounding to binary64\<close>

lemma two_powi_pos: "0 < (2::rat) powi e"
  by simp

lemma two_powi_less: "e < e' \<Longrightarrow> (2::rat) powi e < 2 powi e'"
  by (rule power_int_strict_increasing) simp_all

lemma two_powi_le: "e \<le> e' \<Longrightarrow> (2::rat) powi e \<le> 2 powi e'"
  by (rule power_int_increasing) simp_all

lemma bitlen_powi:
  assumes "0 < a"
  shows "(2::rat) powi (bitlen a - 1) \<le> rat_of_int a \<and> rat_of_int a < 2 powi (bitlen a)"
proof -
  from bitlen_bounds [OF assms]
  have lo: "2 ^ nat (bitlen a - 1) \<le> a" and hi: "a < 2 ^ nat (bitlen a)"
    by simp_all
  have pos: "1 \<le> bitlen a"
    using assms bitlen_nonneg [of a] bitlen_eq_zero_iff [of a] by linarith
  have "rat_of_int (2 ^ nat (bitlen a - 1)) \<le> rat_of_int a"
    using lo by (simp only: of_int_le_iff)
  moreover have "rat_of_int a < rat_of_int (2 ^ nat (bitlen a))"
    using hi by (simp only: of_int_less_iff)
  ultimately show ?thesis
    using pos by (simp add: power_int_nonneg_exp)
qed

lemma exponent_bounds:
  assumes "x \<noteq> 0"
  shows "2 powi (exponent x) \<le> \<bar>x\<bar> \<and> \<bar>x\<bar> < 2 powi (exponent x + 1)"
proof -
  obtain a b where q: "quotient_of \<bar>x\<bar> = (a, b)"
    by (cases "quotient_of \<bar>x\<bar>")
  have b: "0 < b"
    using q by (rule quotient_of_denom_pos)
  have x: "\<bar>x\<bar> = rat_of_int a / rat_of_int b"
    using q by (rule quotient_of_div)
  have xpos: "0 < \<bar>x\<bar>"
    using assms by simp
  have a: "0 < a"
    using xpos b unfolding x by (simp add: zero_less_divide_iff)
  let ?d = "bitlen a - bitlen b"
  note A = bitlen_powi [OF a] and B = bitlen_powi [OF b]
  have rb: "0 < rat_of_int b"
    using b by simp
  have lower: "2 powi (?d - 1) \<le> \<bar>x\<bar>"
  proof -
    have "2 powi (?d - 1) * rat_of_int b \<le> 2 powi (?d - 1) * 2 powi (bitlen b)"
      using B by (intro mult_left_mono) simp_all
    also have "\<dots> = 2 powi (bitlen a - 1)"
      by (simp flip: power_int_add)
    also have "\<dots> \<le> rat_of_int a"
      using A by simp
    finally show ?thesis
      unfolding x using rb by (simp add: pos_le_divide_eq)
  qed
  have upper: "\<bar>x\<bar> < 2 powi (?d + 1)"
  proof -
    have "rat_of_int a < 2 powi (bitlen a)"
      using A by simp
    also have "\<dots> = 2 powi (?d + 1) * 2 powi (bitlen b - 1)"
      by (simp flip: power_int_add)
    also have "\<dots> \<le> 2 powi (?d + 1) * rat_of_int b"
      using B by (intro mult_left_mono) simp_all
    finally show ?thesis
      unfolding x using rb by (simp add: pos_divide_less_eq)
  qed
  have e: "exponent x = (if 2 powi ?d \<le> \<bar>x\<bar> then ?d else ?d - 1)"
    by (simp add: exponent_def q Let_def)
  show ?thesis
  proof (cases "2 powi ?d \<le> \<bar>x\<bar>")
    case True
    with e upper show ?thesis by simp
  next
    case False
    with e lower show ?thesis by simp
  qed
qed

lemma exponent_unique:
  assumes "2 powi e \<le> \<bar>x\<bar>" and "\<bar>x\<bar> < 2 powi (e + 1)"
  shows "exponent x = e"
proof -
  have "x \<noteq> 0"
  proof
    assume "x = 0"
    with assms(1) have "2 powi e \<le> (0::rat)" by simp
    with two_powi_pos [of e] show False by linarith
  qed
  from exponent_bounds [OF this]
  have lo: "2 powi (exponent x) \<le> \<bar>x\<bar>" and hi: "\<bar>x\<bar> < 2 powi (exponent x + 1)"
    by simp_all
  have "\<not> exponent x < e"
  proof
    assume "exponent x < e"
    then have "exponent x + 1 \<le> e" by simp
    from two_powi_le [OF this] hi assms(1) show False by simp
  qed
  moreover have "\<not> e < exponent x"
  proof
    assume "e < exponent x"
    then have "e + 1 \<le> exponent x" by simp
    from two_powi_le [OF this] lo assms(2) show False by simp
  qed
  ultimately show ?thesis by simp
qed

lemma round_half_even_cases:
  obtains (down) "rat_of_int (round_half_even m) = rat_of_int \<lfloor>m\<rfloor>"
      and "m - rat_of_int \<lfloor>m\<rfloor> \<le> 1 / 2"
    | (up) "rat_of_int (round_half_even m) = rat_of_int \<lfloor>m\<rfloor> + 1"
      and "1 / 2 \<le> m - rat_of_int \<lfloor>m\<rfloor>"
  unfolding round_half_even_def Let_def
  by (cases "m - rat_of_int \<lfloor>m\<rfloor> < 1 / 2"; cases "1 / 2 < m - rat_of_int \<lfloor>m\<rfloor>";
      cases "even \<lfloor>m\<rfloor>") simp_all

lemma round_half_even_near: "\<bar>rat_of_int (round_half_even m) - m\<bar> \<le> 1 / 2"
proof -
  have f: "rat_of_int \<lfloor>m\<rfloor> \<le> m" "m < rat_of_int \<lfloor>m\<rfloor> + 1"
    by linarith+
  show ?thesis
  proof (cases m rule: round_half_even_cases)
    case down
    with f show ?thesis by linarith
  next
    case up
    with f show ?thesis by linarith
  qed
qed

lemma round_half_even_le:
  assumes "m \<le> rat_of_int c"
  shows "round_half_even m \<le> c"
proof -
  have f: "rat_of_int \<lfloor>m\<rfloor> \<le> m" "m < rat_of_int \<lfloor>m\<rfloor> + 1"
    by linarith+
  have "rat_of_int (round_half_even m) < rat_of_int c + 1"
  proof (cases m rule: round_half_even_cases)
    case down
    with f assms show ?thesis by linarith
  next
    case up
    with f assms show ?thesis by linarith
  qed
  then have "rat_of_int (round_half_even m) < rat_of_int (c + 1)"
    by simp
  then have "round_half_even m < c + 1"
    by (simp only: of_int_less_iff)
  then show ?thesis by simp
qed

lemma round_half_even_ge:
  assumes "rat_of_int c \<le> m"
  shows "c \<le> round_half_even m"
proof -
  have f: "rat_of_int \<lfloor>m\<rfloor> \<le> m" "m < rat_of_int \<lfloor>m\<rfloor> + 1"
    by linarith+
  have "rat_of_int c - 1 < rat_of_int (round_half_even m)"
  proof (cases m rule: round_half_even_cases)
    case down
    with f assms show ?thesis by linarith
  next
    case up
    with f assms show ?thesis by linarith
  qed
  then have "rat_of_int (c - 1) < rat_of_int (round_half_even m)"
    by simp
  then have "c - 1 < round_half_even m"
    by (simp only: of_int_less_iff)
  then show ?thesis by simp
qed


lemma two_powi_split52: "(2::rat) powi e = rat_of_int (2 ^ 52) * 2 powi (e - 52)"
proof -
  have "(2::rat) powi (52 + (e - 52)) = 2 powi 52 * 2 powi (e - 52)"
    by (rule power_int_add) simp
  moreover have "52 + (e - 52) = e" by simp
  moreover have "(2::rat) powi 52 = rat_of_int (2 ^ 52)" by simp
  ultimately show ?thesis by (simp only:)
qed

lemma two_powi_split53: "(2::rat) powi (e + 1) = rat_of_int (2 ^ 53) * 2 powi (e - 52)"
proof -
  have "(2::rat) powi (53 + (e - 52)) = 2 powi 53 * 2 powi (e - 52)"
    by (rule power_int_add) simp
  moreover have "53 + (e - 52) = e + 1" by simp
  moreover have "(2::rat) powi 53 = rat_of_int (2 ^ 53)" by simp
  ultimately show ?thesis by (simp only:)
qed

lemma round_double_normal:
  assumes lo: "2 powi e \<le> x" and hi: "x < 2 powi (e + 1)"
    and e: "- 1022 \<le> e" "e \<le> 1022"
  shows "round_double x =
    Finite (rat_of_int (round_half_even (x / 2 powi (e - 52))) * 2 powi (e - 52))"
    and "2 ^ 52 \<le> round_half_even (x / 2 powi (e - 52))"
proof -
  let ?ulp = "(2::rat) powi (e - 52)"
  let ?m = "round_half_even (x / ?ulp)"
  have upos: "0 < ?ulp" by simp
  have xpos: "0 < x"
    using lo two_powi_pos [of e] by linarith
  then have ax: "\<bar>x\<bar> = x" and x0: "x \<noteq> 0" by simp_all
  have ex: "exponent x = e"
    using lo hi by (intro exponent_unique) (simp_all only: ax)
  have p52: "(2::rat) powi e = rat_of_int (2 ^ 52) * ?ulp"
    by (rule two_powi_split52)
  have p53: "(2::rat) powi (e + 1) = rat_of_int (2 ^ 53) * ?ulp"
    by (rule two_powi_split53)
  have "rat_of_int (2 ^ 52) \<le> x / ?ulp"
    using lo upos unfolding p52 by (simp only: pos_le_divide_eq)
  then show m_lo: "2 ^ 52 \<le> ?m"
    by (rule round_half_even_ge)
  have "x / ?ulp \<le> rat_of_int (2 ^ 53)"
    using hi upos unfolding p53 by (simp only: pos_divide_le_eq less_imp_le)
  then have m_hi: "?m \<le> 2 ^ 53"
    by (rule round_half_even_le)
  have "rat_of_int ?m * ?ulp \<le> rat_of_int (2 ^ 53) * ?ulp"
    using m_hi upos by (intro mult_right_mono) (simp_all only: of_int_le_iff less_imp_le)
  also have "\<dots> = 2 powi (e + 1)"
    by (simp only: p53)
  also have "\<dots> < 2 powi 1024"
    using e by (intro two_powi_less) simp
  finally have small: "rat_of_int ?m * ?ulp < 2 powi 1024" .
  have "0 < rat_of_int ?m"
    using m_lo by simp
  then have rpos: "0 < rat_of_int ?m * ?ulp"
    using upos by simp
  have big: "\<not> rat_of_int ?m * ?ulp \<le> - (2 powi 1024)"
    using rpos two_powi_pos [of 1024] by linarith
  have mx: "max e (- 1022) = e"
    using e by simp
  show "round_double x = Finite (rat_of_int ?m * ?ulp)"
    using small big x0 by (simp add: round_double_def ex mx Let_def not_le)
qed

lemma round_double_props:
  assumes lo: "2 powi e \<le> x" and hi: "x < 2 powi (e + 1)"
    and e: "- 1022 \<le> e" "e \<le> 52"
  obtains r where "round_double x = Finite r"
    and "\<bar>r - x\<bar> \<le> 2 powi (e - 53)"
    and "2 powi e \<le> r"
    and "\<And>c. x \<le> rat_of_int c \<Longrightarrow> r \<le> rat_of_int c"
    and "\<And>c. rat_of_int c \<le> x \<Longrightarrow> rat_of_int c \<le> r"
proof -
  let ?ulp = "(2::rat) powi (e - 52)"
  let ?m = "round_half_even (x / ?ulp)"
  let ?r = "rat_of_int ?m * ?ulp"
  have upos: "0 < ?ulp" by simp
  have e': "e \<le> 1022" using e by simp
  note N = round_double_normal [OF lo hi e(1) e']
  have half: "?ulp / 2 = 2 powi (e - 53)"
    using power_int_add [of "2::rat" "e - 53" 1] by simp
  have "\<bar>rat_of_int ?m - x / ?ulp\<bar> \<le> 1 / 2"
    by (rule round_half_even_near)
  then have "\<bar>rat_of_int ?m - x / ?ulp\<bar> * ?ulp \<le> 1 / 2 * ?ulp"
    using upos by (intro mult_right_mono) simp_all
  moreover have "\<bar>rat_of_int ?m - x / ?ulp\<bar> * ?ulp = \<bar>?r - x\<bar>"
  proof -
    have "(rat_of_int ?m - x / ?ulp) * ?ulp = ?r - x"
      using upos by (simp add: left_diff_distrib)
    moreover have "\<bar>rat_of_int ?m - x / ?ulp\<bar> * ?ulp =
        \<bar>(rat_of_int ?m - x / ?ulp) * ?ulp\<bar>"
      using upos by (intro abs_mult_pos) simp
    ultimately show ?thesis by (simp only:)
  qed
  ultimately have near: "\<bar>?r - x\<bar> \<le> 2 powi (e - 53)"
    using half by simp
  have p52: "(2::rat) powi e = rat_of_int (2 ^ 52) * ?ulp"
    by (rule two_powi_split52)
  have "rat_of_int (2 ^ 52) * ?ulp \<le> ?r"
    using N(2) upos by (intro mult_right_mono) (simp_all only: of_int_le_iff less_imp_le)
  then have above: "2 powi e \<le> ?r"
    by (simp only: p52)
  have grid: "?r \<le> rat_of_int c" if c: "x \<le> rat_of_int c" for c
  proof -
    have k: "0 \<le> 52 - e" using e by simp
    have inv: "?ulp * 2 powi (52 - e) = 1"
      using power_int_add [of "2::rat" "e - 52" "52 - e"] by simp
    have int: "(2::rat) powi (52 - e) = rat_of_int (2 ^ nat (52 - e))"
      using k by (simp add: power_int_nonneg_exp)
    have "x / ?ulp = x * 2 powi (52 - e)"
      using inv upos by (simp add: field_simps)
    also have "\<dots> \<le> rat_of_int c * 2 powi (52 - e)"
      using c by (intro mult_right_mono) simp_all
    also have "\<dots> = rat_of_int (c * 2 ^ nat (52 - e))"
      by (simp add: int)
    finally have "?m \<le> c * 2 ^ nat (52 - e)"
      by (rule round_half_even_le)
    then have "rat_of_int ?m \<le> rat_of_int (c * 2 ^ nat (52 - e))"
      by (simp only: of_int_le_iff)
    then have "?r \<le> rat_of_int (c * 2 ^ nat (52 - e)) * ?ulp"
      using upos by (intro mult_right_mono) simp_all
    also have "\<dots> = rat_of_int c * (?ulp * 2 powi (52 - e))"
      by (simp add: int)
    finally show ?thesis
      by (simp only: inv mult_1_right)
  qed
  have grid': "rat_of_int c \<le> ?r" if c: "rat_of_int c \<le> x" for c
  proof -
    have k: "0 \<le> 52 - e" using e by simp
    have inv: "?ulp * 2 powi (52 - e) = 1"
      using power_int_add [of "2::rat" "e - 52" "52 - e"] by simp
    have int: "(2::rat) powi (52 - e) = rat_of_int (2 ^ nat (52 - e))"
      using k by (simp add: power_int_nonneg_exp)
    have "rat_of_int (c * 2 ^ nat (52 - e)) = rat_of_int c * 2 powi (52 - e)"
      by (simp add: int)
    also have "\<dots> \<le> x * 2 powi (52 - e)"
      using c by (intro mult_right_mono) simp_all
    also have "\<dots> = x / ?ulp"
      using inv upos by (simp add: field_simps)
    finally have "c * 2 ^ nat (52 - e) \<le> ?m"
      by (rule round_half_even_ge)
    then have "rat_of_int (c * 2 ^ nat (52 - e)) \<le> rat_of_int ?m"
      by (simp only: of_int_le_iff)
    then have "rat_of_int (c * 2 ^ nat (52 - e)) * ?ulp \<le> ?r"
      using upos by (intro mult_right_mono) simp_all
    moreover have "rat_of_int (c * 2 ^ nat (52 - e)) * ?ulp =
        rat_of_int c * (?ulp * 2 powi (52 - e))"
      by (simp add: int)
    ultimately show ?thesis
      by (simp only: inv mult_1_right)
  qed
  from N(1) near above grid grid' show ?thesis
    by (rule that)
qed


lemma round_double_range:
  assumes lo: "2 powi lo \<le> x" and hi: "x < 2 powi hi"
    and r: "- 1022 \<le> lo" "hi \<le> 53"
  obtains r where "round_double x = Finite r"
    and "\<bar>r - x\<bar> \<le> 2 powi (hi - 54)"
    and "2 powi lo \<le> r"
    and "\<And>c. x \<le> rat_of_int c \<Longrightarrow> r \<le> rat_of_int c"
    and "\<And>c. rat_of_int c \<le> x \<Longrightarrow> rat_of_int c \<le> r"
proof -
  let ?e = "exponent x"
  have xpos: "0 < x"
    using lo two_powi_pos [of lo] by linarith
  then have ax: "\<bar>x\<bar> = x" and "x \<noteq> 0" by simp_all
  from exponent_bounds [OF \<open>x \<noteq> 0\<close>]
  have b: "2 powi ?e \<le> x" "x < 2 powi (?e + 1)"
    by (simp_all only: ax)
  have ge: "lo \<le> ?e"
  proof (rule ccontr)
    assume "\<not> lo \<le> ?e"
    then have "?e + 1 \<le> lo" by simp
    from two_powi_le [OF this] b(2) lo show False by simp
  qed
  have lt: "?e < hi"
  proof (rule ccontr)
    assume "\<not> ?e < hi"
    then have "hi \<le> ?e" by simp
    from two_powi_le [OF this] b(1) hi show False by simp
  qed
  have e1: "- 1022 \<le> ?e" and e2: "?e \<le> 52"
    using ge lt r by simp_all
  from round_double_props [OF b e1 e2]
  obtain r where R: "round_double x = Finite r" "\<bar>r - x\<bar> \<le> 2 powi (?e - 53)"
      "2 powi ?e \<le> r" "\<And>c. x \<le> rat_of_int c \<Longrightarrow> r \<le> rat_of_int c"
      "\<And>c. rat_of_int c \<le> x \<Longrightarrow> rat_of_int c \<le> r"
    by blast
  have "(2::rat) powi (?e - 53) \<le> 2 powi (hi - 54)"
    using lt by (intro two_powi_le) simp
  with R(2) have near: "\<bar>r - x\<bar> \<le> 2 powi (hi - 54)"
    by simp
  have "(2::rat) powi lo \<le> 2 powi ?e"
    using ge by (rule two_powi_le)
  with R(3) have above: "2 powi lo \<le> r"
    by simp
  from R(1) near above R(4) R(5) show ?thesis
    by (rule that)
qed

lemma round_double_zero: "round_double 0 = Finite 0"
  by (simp add: round_double_def)

lemma abs_chain:
  fixes p q x :: rat
  shows "\<bar>p - x * 100\<bar> \<le> \<bar>p - q * 100\<bar> + \<bar>q - x\<bar> * 100"
  by (cases "0 \<le> p - x * 100"; cases "0 \<le> p - q * 100"; cases "0 \<le> q - x")
    (simp_all add: abs_if)

lemma percentual_props:
  assumes n: "0 \<le> n" "n \<le> 190"
  obtains q p where "truediv n 190 = Inr q"
    and "round_double (rat_of_int n / 190) = Finite q"
    and "float_mul q 100 = Finite p"
    and "0 \<le> p" and "p \<le> 100" and "(p = 0) = (n = 0)"
    and "\<bar>p - rat_of_int n / 190 * 100\<bar> < 1 / 2 ^ 46"
    and "n = 190 \<Longrightarrow> p = 100"
proof -
  let ?x = "rat_of_int n / 190"
  consider (zero) "n = 0" | (mid) "1 \<le> n" "n \<le> 189" | (top) "n = 190"
    using n by linarith
  then show ?thesis
  proof cases
    case zero
    have "truediv n 190 = Inr 0"
      by (simp add: truediv_def zero round_double_zero)
    moreover have "round_double ?x = Finite 0"
      by (simp add: zero round_double_zero)
    moreover have "float_mul 0 100 = Finite 0"
      by (simp add: float_mul_def round_double_zero)
    ultimately show ?thesis
      using zero by (intro that [of 0 0]) simp_all
  next
    case top
    have x: "?x = 1" by (simp add: top)
    have a: "2 powi 0 \<le> ?x" "?x < 2 powi 1"
      by (simp_all add: x)
    have s: "- 1022 \<le> (0::int)" "(1::int) \<le> 53"
      by simp_all
    from round_double_range [OF a s]
    obtain q where Q: "round_double ?x = Finite q" "\<bar>q - ?x\<bar> \<le> 2 powi (1 - 54)"
        "2 powi 0 \<le> q" "\<And>c. ?x \<le> rat_of_int c \<Longrightarrow> q \<le> rat_of_int c"
        "\<And>c. rat_of_int c \<le> ?x \<Longrightarrow> rat_of_int c \<le> q"
      by blast
    have "q \<le> rat_of_int 1"
      by (rule Q(4)) (simp add: x)
    with Q(3) have q: "q = 1" by simp
    have b: "2 powi 6 \<le> q * 100" "q * 100 < 2 powi 7"
      by (simp_all add: q)
    have t: "- 1022 \<le> (6::int)" "(7::int) \<le> 53"
      by simp_all
    from round_double_range [OF b t]
    obtain p where P: "round_double (q * 100) = Finite p"
        "\<bar>p - q * 100\<bar> \<le> 2 powi (7 - 54)" "2 powi 6 \<le> p"
        "\<And>c. q * 100 \<le> rat_of_int c \<Longrightarrow> p \<le> rat_of_int c"
        "\<And>c. rat_of_int c \<le> q * 100 \<Longrightarrow> rat_of_int c \<le> p"
      by blast
    have "p \<le> rat_of_int 100"
      by (rule P(4)) (simp add: q)
    moreover have "rat_of_int 100 \<le> p"
      by (rule P(5)) (simp add: q)
    ultimately have p: "p = 100" by simp
    have "truediv n 190 = Inr q"
      using Q(1) by (simp add: truediv_def)
    moreover have "float_mul q 100 = Finite p"
      using P(1) by (simp add: float_mul_def)
    ultimately show ?thesis
      using Q(1) by (intro that [of q p]) (simp_all add: p top)
  next
    case mid
    have x1: "1 / 190 \<le> ?x" and x2: "?x \<le> 189 / 190"
      using mid by simp_all
    have a: "2 powi (- 8) \<le> ?x" "?x < 2 powi 0"
      using x1 x2 by simp_all
    have s: "- 1022 \<le> (- 8::int)" "(0::int) \<le> 53"
      by simp_all
    from round_double_range [OF a s]
    obtain q where Q: "round_double ?x = Finite q" "\<bar>q - ?x\<bar> \<le> 2 powi (0 - 54)"
        "2 powi (- 8) \<le> q" "\<And>c. ?x \<le> rat_of_int c \<Longrightarrow> q \<le> rat_of_int c"
        "\<And>c. rat_of_int c \<le> ?x \<Longrightarrow> rat_of_int c \<le> q"
      by blast
    have "q \<le> rat_of_int 1"
      using x2 by (intro Q(4)) simp
    then have q1: "q \<le> 1" by simp
    have q8: "1 / 256 \<le> q"
      using Q(3) by simp
    have qn: "\<bar>q - ?x\<bar> \<le> 1 / 2 ^ 54"
      using Q(2) by (simp add: power_int_minus_divide)
    have b: "2 powi (- 2) \<le> q * 100" "q * 100 < 2 powi 7"
      using q1 q8 by simp_all
    have t: "- 1022 \<le> (- 2::int)" "(7::int) \<le> 53"
      by simp_all
    from round_double_range [OF b t]
    obtain p where P: "round_double (q * 100) = Finite p"
        "\<bar>p - q * 100\<bar> \<le> 2 powi (7 - 54)" "2 powi (- 2) \<le> p"
        "\<And>c. q * 100 \<le> rat_of_int c \<Longrightarrow> p \<le> rat_of_int c"
        "\<And>c. rat_of_int c \<le> q * 100 \<Longrightarrow> rat_of_int c \<le> p"
      by blast
    have "p \<le> rat_of_int 100"
      using q1 by (intro P(4)) simp
    then have p100: "p \<le> 100" by simp
    have ppos: "0 < p"
      using P(3) by simp
    have pn: "\<bar>p - q * 100\<bar> \<le> 1 / 2 ^ 47"
      using P(2) by (simp add: power_int_minus_divide)
    have "\<bar>p - ?x * 100\<bar> \<le> \<bar>p - q * 100\<bar> + \<bar>q - ?x\<bar> * 100"
      by (rule abs_chain)
    also have "\<dots> \<le> 1 / 2 ^ 47 + 1 / 2 ^ 54 * 100"
      using pn qn by (intro add_mono mult_right_mono) simp_all
    also have "\<dots> < 1 / 2 ^ 46"
      by simp
    finally have near: "\<bar>p - ?x * 100\<bar> < 1 / 2 ^ 46" .
    have "truediv n 190 = Inr q"
      using Q(1) by (simp add: truediv_def)
    moreover have "float_mul q 100 = Finite p"
      using P(1) by (simp add: float_mul_def)
    ultimately show ?thesis
      using Q(1) p100 ppos near mid by (intro that [of q p]) simp_all
  qed
qed




subsection \<open>The dictionary and the raw sum in closed form\<close>

lemmas label_defs = label_idade_def label_creatinina_def label_has_def label_dm_def
  label_isquemia_def label_pcr_def label_hcv_def

lemma dict_eq:
  "(let d0 = [];
          d1 = (if pontos_idade idade > 0
                then AList.update label_idade (pontos_idade idade) d0 else d0);
          d2 = (if pontos_creatinina creatinina > 0
                then AList.update label_creatinina (pontos_creatinina creatinina) d1 else d1);
          d3 = (if has then AList.update label_has 25 d2 else d2);
          d4 = (if dm then AList.update label_dm 30 d3 else d3);
          d5 = (if pontos_isquemia tempo_isquemia > 0
                then AList.update label_isquemia (pontos_isquemia tempo_isquemia) d4 else d4);
          d6 = (if pcr then AList.update label_pcr 15 d5 else d5)
     in (if hcv then AList.update label_hcv 10 d6 else d6)) =
   fatores idade creatinina has dm tempo_isquemia pcr hcv"
  unfolding Let_def fatores_def entry_def flag_def label_defs
  by simp

lemma flag_range:
  "0 \<le> flag b 25 \<and> flag b 25 \<le> 25 \<and> 0 \<le> flag b 30 \<and> flag b 30 \<le> 30 \<and>
   0 \<le> flag b 15 \<and> flag b 15 \<le> 15 \<and> 0 \<le> flag b 10 \<and> flag b 10 \<le> 10"
  by (simp add: flag_def)

lemma sum_values_fatores:
  "sum_values (fatores idade creatinina has dm tempo_isquemia pcr hcv) =
     bruto idade creatinina has dm tempo_isquemia pcr hcv"
  using pontos_idade_range [of idade] pontos_creatinina_range [of creatinina]
    pontos_isquemia_range [of tempo_isquemia]
  unfolding fatores_def bruto_def sum_values_def entry_def flag_def
  by simp

lemma bruto_range:
  "0 \<le> bruto idade creatinina has dm tempo_isquemia pcr hcv \<and>
   bruto idade creatinina has dm tempo_isquemia pcr hcv \<le> 190"
  using pontos_idade_range [of idade] pontos_creatinina_range [of creatinina]
    pontos_isquemia_range [of tempo_isquemia]
    flag_range [of has] flag_range [of dm] flag_range [of pcr] flag_range [of hcv]
  unfolding bruto_def by linarith

lemma bruto_zero_iff:
  "(bruto idade creatinina has dm tempo_isquemia pcr hcv = 0) =
   (pontos_idade idade = 0 \<and> pontos_creatinina creatinina = 0 \<and> \<not> has \<and> \<not> dm \<and>
    pontos_isquemia tempo_isquemia = 0 \<and> \<not> pcr \<and> \<not> hcv)"
  using pontos_idade_range [of idade] pontos_creatinina_range [of creatinina]
    pontos_isquemia_range [of tempo_isquemia]
  unfolding bruto_def flag_def by auto

lemma entry_Nil_iff: "0 \<le> v \<Longrightarrow> (entry k v = []) = (v = 0)"
  by (auto simp: entry_def)

lemma fatores_Nil_iff:
  "(fatores idade creatinina has dm tempo_isquemia pcr hcv = []) =
   (pontos_idade idade = 0 \<and> pontos_creatinina creatinina = 0 \<and> \<not> has \<and> \<not> dm \<and>
    pontos_isquemia tempo_isquemia = 0 \<and> \<not> pcr \<and> \<not> hcv)"
  using pontos_idade_range [of idade] pontos_creatinina_range [of creatinina]
    pontos_isquemia_range [of tempo_isquemia]
  unfolding fatores_def by (simp add: entry_Nil_iff) (simp add: entry_def flag_def)

lemma map_of_entry: "map_of (entry k v) k' = (if k' = k \<and> v > 0 then Some v else None)"
  by (simp add: entry_def)

lemma label_neq:
  "label_idade \<noteq> label_creatinina" "label_idade \<noteq> label_has" "label_idade \<noteq> label_dm"
  "label_idade \<noteq> label_isquemia" "label_idade \<noteq> label_pcr" "label_idade \<noteq> label_hcv"
  "label_creatinina \<noteq> label_has" "label_creatinina \<noteq> label_dm"
  "label_creatinina \<noteq> label_isquemia" "label_creatinina \<noteq> label_pcr"
  "label_creatinina \<noteq> label_hcv" "label_has \<noteq> label_dm" "label_has \<noteq> label_isquemia"
  "label_has \<noteq> label_pcr" "label_has \<noteq> label_hcv" "label_dm \<noteq> label_isquemia"
  "label_dm \<noteq> label_pcr" "label_dm \<noteq> label_hcv" "label_isquemia \<noteq> label_pcr"
  "label_isquemia \<noteq> label_hcv" "label_pcr \<noteq> label_hcv"
  by (simp_all add: label_defs)

lemma map_of_idade:
  "map_of (fatores idade creatinina has dm tempo_isquemia pcr hcv) label_idade =
     (if pontos_idade idade > 0 then Some (pontos_idade idade) else None)"
  unfolding fatores_def
  by (simp add: map_of_entry map_add_def label_neq label_neq [symmetric])

lemma map_of_creatinina:
  "map_of (fatores idade creatinina has dm tempo_isquemia pcr hcv) label_creatinina =
     (if pontos_creatinina creatinina > 0 then Some (pontos_creatinina creatinina) else None)"
  unfolding fatores_def
  by (simp add: map_of_entry map_add_def label_neq label_neq [symmetric])

lemma map_of_isquemia:
  "map_of (fatores idade creatinina has dm tempo_isquemia pcr hcv) label_isquemia =
     (if pontos_isquemia tempo_isquemia > 0 then Some (pontos_isquemia tempo_isquemia) else None)"
  unfolding fatores_def
  by (simp add: map_of_entry map_add_def label_neq label_neq [symmetric])

lemma map_of_flags:
  "map_of (fatores idade creatinina has dm tempo_isquemia pcr hcv) label_has =
     (if has then Some 25 else None)"
  "map_of (fatores idade creatinina has dm tempo_isquemia pcr hcv) label_dm =
     (if dm then Some 30 else None)"
  "map_of (fatores idade creatinina has dm tempo_isquemia pcr hcv) label_pcr =
     (if pcr then Some 15 else None)"
  "map_of (fatores idade creatinina has dm tempo_isquemia pcr hcv) label_hcv =
     (if hcv then Some 10 else None)"
  unfolding fatores_def
  by (simp_all add: map_of_entry map_add_def label_neq label_neq [symmetric] flag_def)

lemma values_positive:
  "(k, v) \<in> set (fatores idade creatinina has dm tempo_isquemia pcr hcv) \<Longrightarrow> 0 < v"
  unfolding fatores_def entry_def by (auto split: if_splits)

subsection \<open>The result of the scoring function\<close>

lemma calcular_score_risco_eq:
  "\<exists>p q.
     calcular_score_risco idade creatinina has dm tempo_isquemia pcr hcv =
       Inr (Finite p, fatores idade creatinina has dm tempo_isquemia pcr hcv) \<and>
     round_double
       (rat_of_int (bruto idade creatinina has dm tempo_isquemia pcr hcv) / 190) =
         Finite q \<and>
     round_double (q * 100) = Finite p \<and>
     0 \<le> p \<and> p \<le> 100 \<and>
     (p = 0) = (bruto idade creatinina has dm tempo_isquemia pcr hcv = 0) \<and>
     \<bar>p - rat_of_int (bruto idade creatinina has dm tempo_isquemia pcr hcv) / 190 * 100\<bar>
       < 1 / 2 ^ 46 \<and>
     (bruto idade creatinina has dm tempo_isquemia pcr hcv = 190 \<longrightarrow> p = 100)"
proof -
  let ?b = "bruto idade creatinina has dm tempo_isquemia pcr hcv"
  have r: "0 \<le> ?b" "?b \<le> 190"
    using bruto_range [of idade creatinina has dm tempo_isquemia pcr hcv] by simp_all
  from percentual_props [OF r]
  obtain q p where P: "truediv ?b 190 = Inr q" "round_double (rat_of_int ?b / 190) = Finite q"
      "float_mul q 100 = Finite p" "0 \<le> p" "p \<le> 100" "(p = 0) = (?b = 0)"
      "\<bar>p - rat_of_int ?b / 190 * 100\<bar> < 1 / 2 ^ 46" "?b = 190 \<Longrightarrow> p = 100"
    by blast
  have c1: "calcular_score_risco idade creatinina has dm tempo_isquemia pcr hcv =
      Inr (Finite p, fatores idade creatinina has dm tempo_isquemia pcr hcv)"
    using dict_eq [of idade creatinina has dm tempo_isquemia pcr hcv] P(1) P(3)
    unfolding calcular_score_risco_def Let_def
    by (simp add: sum_values_fatores)
  have c2: "round_double (q * 100) = Finite p"
    using P(3) by (simp only: float_mul_def)
  from c1 P(2) c2 P(4) P(5) P(6) P(7) P(8) show ?thesis
    by blast
qed

lemma calcular_score_risco_fatores:
  "\<exists>percentage. calcular_score_risco idade creatinina has dm tempo_isquemia pcr hcv =
     Inr (percentage, fatores idade creatinina has dm tempo_isquemia pcr hcv)"
  using calcular_score_risco_eq [of idade creatinina has dm tempo_isquemia pcr hcv] by blast



section \<open>The claims\<close>

subsection \<open>C1: the percentage is the normalised sum of the contributions, rounded\<close>




subsection \<open>C2: the percentage lies between 0 and 100\<close>

text \<open>
  C2. For every donor profile whose fields lie in their declared domains, the function
  returns a finite percentage between 0 and 100, both included.
\<close>

theorem percentage_bounds:
  assumes "in_domain idade creatinina tempo_isquemia"
  shows "\<exists>percentage contributions.
           calcular_score_risco idade creatinina has dm tempo_isquemia pcr hcv =
             Inr (Finite percentage, contributions) \<and>
           0 \<le> percentage \<and> percentage \<le> 100"
proof -
  from calcular_score_risco_eq [of idade creatinina has dm tempo_isquemia pcr hcv]
  obtain p where
      "calcular_score_risco idade creatinina has dm tempo_isquemia pcr hcv =
         Inr (Finite p, fatores idade creatinina has dm tempo_isquemia pcr hcv)"
      "0 \<le> p" "p \<le> 100"
    by blast
  then show ?thesis by blast
qed

theorem percentage_bounds_witness:
  "in_domain 65 3 30 \<and>
   (\<exists>percentage contributions.
      calcular_score_risco 65 3 True True 30 True True =
        Inr (Finite percentage, contributions) \<and>
      0 \<le> percentage \<and> percentage \<le> 100)"
proof -
  have d: "in_domain 65 3 30"
    by (simp add: in_domain_def)
  from percentage_bounds [OF d, of True True True True] d
  show ?thesis by blast
qed

subsection \<open>C3: the tiers of the donor age\<close>

text \<open>
  C3. The age factor awards 0 points at age 39, 15 at ages 40 and 49, 25 at ages 50 and
  59, 40 at ages 60 and 99, and 0 at every age below 40. The function returns a
  dictionary in which the label \<^verbatim>\<open>Idade\<close> is absent when the award is 0 and carries the
  award otherwise.
\<close>

theorem age_tiers:
  "pontos_idade 39 = 0 \<and> pontos_idade 40 = 15 \<and> pontos_idade 49 = 15 \<and>
   pontos_idade 50 = 25 \<and> pontos_idade 59 = 25 \<and> pontos_idade 60 = 40 \<and>
   pontos_idade 99 = 40 \<and>
   (idade < 40 \<longrightarrow> pontos_idade idade = 0) \<and>
   pontos_idade idade =
     (if idade < 40 then 0 else if idade \<le> 49 then 15 else if idade \<le> 59 then 25 else 40) \<and>
   (\<exists>percentage contributions.
      calcular_score_risco idade creatinina has dm tempo_isquemia pcr hcv =
        Inr (percentage, contributions) \<and>
      map_of contributions ''Idade'' =
        (if idade < 40 then None else if idade \<le> 49 then Some 15
         else if idade \<le> 59 then Some 25 else Some 40))"
proof -
  have tiers: "pontos_idade 39 = 0 \<and> pontos_idade 40 = 15 \<and> pontos_idade 49 = 15 \<and>
      pontos_idade 50 = 25 \<and> pontos_idade 59 = 25 \<and> pontos_idade 60 = 40 \<and>
      pontos_idade 99 = 40"
    by (simp add: pontos_idade_def)
  have low: "idade < 40 \<longrightarrow> pontos_idade idade = 0"
    by (simp add: pontos_idade_def)
  have chain: "pontos_idade idade =
      (if idade < 40 then 0 else if idade \<le> 49 then 15 else if idade \<le> 59 then 25 else 40)"
    by (simp add: pontos_idade_def)
  have "map_of (fatores idade creatinina has dm tempo_isquemia pcr hcv) ''Idade'' =
      (if idade < 40 then None else if idade \<le> 49 then Some 15
       else if idade \<le> 59 then Some 25 else Some 40)"
    using map_of_idade [of idade creatinina has dm tempo_isquemia pcr hcv]
    by (simp add: label_idade_def chain)
  with calcular_score_risco_fatores [of idade creatinina has dm tempo_isquemia pcr hcv]
  have dict: "\<exists>percentage contributions.
      calcular_score_risco idade creatinina has dm tempo_isquemia pcr hcv =
        Inr (percentage, contributions) \<and>
      map_of contributions ''Idade'' =
        (if idade < 40 then None else if idade \<le> 49 then Some 15
         else if idade \<le> 59 then Some 25 else Some 40)"
    by blast
  from tiers low chain dict show ?thesis by blast
qed

theorem age_tiers_witness:
  "(39::int) < 40 \<and> pontos_idade 39 = 0 \<and>
   (\<exists>percentage contributions.
      calcular_score_risco 39 1 False False 5 False False = Inr (percentage, contributions) \<and>
      map_of contributions ''Idade'' = None) \<and>
   (\<exists>percentage contributions.
      calcular_score_risco 49 1 False False 5 False False = Inr (percentage, contributions) \<and>
      map_of contributions ''Idade'' = Some 15)"
  using age_tiers [of 39 1 False False 5 False False]
    age_tiers [of 49 1 False False 5 False False]
  by (simp add: pontos_idade_def)

subsection \<open>C4: the tiers of the serum creatinine\<close>

text \<open>
  C4. The creatinine factor awards 20 points on the closed interval from 1.5 to 2.5 (so
  2.5 gives 20, not 35), 35 points above 2.5 and 0 points below 1.5 (1.49 gives 0, 2.51
  gives 35). The function returns a dictionary in which the label \<^verbatim>\<open>Creatinina\<close> is absent
  when the award is 0 and carries the award otherwise.
\<close>

theorem creatinine_tiers:
  "pontos_creatinina (149 / 100) = 0 \<and> pontos_creatinina (3 / 2) = 20 \<and>
   pontos_creatinina (5 / 2) = 20 \<and> pontos_creatinina (251 / 100) = 35 \<and>
   (3 / 2 \<le> creatinina \<and> creatinina \<le> 5 / 2 \<longrightarrow> pontos_creatinina creatinina = 20) \<and>
   (5 / 2 < creatinina \<longrightarrow> pontos_creatinina creatinina = 35) \<and>
   (creatinina < 3 / 2 \<longrightarrow> pontos_creatinina creatinina = 0) \<and>
   (\<exists>percentage contributions.
      calcular_score_risco idade creatinina has dm tempo_isquemia pcr hcv =
        Inr (percentage, contributions) \<and>
      map_of contributions ''Creatinina'' =
        (if creatinina < 3 / 2 then None else if creatinina \<le> 5 / 2 then Some 20
         else Some 35))"
proof -
  have tiers: "pontos_creatinina (149 / 100) = 0 \<and> pontos_creatinina (3 / 2) = 20 \<and>
      pontos_creatinina (5 / 2) = 20 \<and> pontos_creatinina (251 / 100) = 35"
    by (simp add: pontos_creatinina_def)
  have mid: "3 / 2 \<le> creatinina \<and> creatinina \<le> 5 / 2 \<longrightarrow> pontos_creatinina creatinina = 20"
    by (simp add: pontos_creatinina_def)
  have high: "5 / 2 < creatinina \<longrightarrow> pontos_creatinina creatinina = 35"
    by (simp add: pontos_creatinina_def)
  have low: "creatinina < 3 / 2 \<longrightarrow> pontos_creatinina creatinina = 0"
    by (simp add: pontos_creatinina_def)
  have "map_of (fatores idade creatinina has dm tempo_isquemia pcr hcv) ''Creatinina'' =
      (if creatinina < 3 / 2 then None else if creatinina \<le> 5 / 2 then Some 20
       else Some 35)"
    using map_of_creatinina [of idade creatinina has dm tempo_isquemia pcr hcv]
    by (simp add: label_creatinina_def pontos_creatinina_def)
  with calcular_score_risco_fatores [of idade creatinina has dm tempo_isquemia pcr hcv]
  have dict: "\<exists>percentage contributions.
      calcular_score_risco idade creatinina has dm tempo_isquemia pcr hcv =
        Inr (percentage, contributions) \<and>
      map_of contributions ''Creatinina'' =
        (if creatinina < 3 / 2 then None else if creatinina \<le> 5 / 2 then Some 20
         else Some 35)"
    by blast
  from tiers mid high low dict show ?thesis by blast
qed

theorem creatinine_tiers_witness:
  "(3 / 2 :: rat) \<le> 5 / 2 \<and> (5 / 2 :: rat) \<le> 5 / 2 \<and> pontos_creatinina (5 / 2) = 20 \<and>
   (5 / 2 :: rat) < 3 \<and> pontos_creatinina 3 = 35 \<and>
   (1 :: rat) < 3 / 2 \<and> pontos_creatinina 1 = 0 \<and>
   (\<exists>percentage contributions.
      calcular_score_risco 30 (5 / 2) False False 5 False False =
        Inr (percentage, contributions) \<and>
      map_of contributions ''Creatinina'' = Some 20)"
  using creatinine_tiers [of "5 / 2" 30 False False 5 False False]
    creatinine_tiers [of 3 30 False False 5 False False]
    creatinine_tiers [of 1 30 False False 5 False False]
  by (simp add: pontos_creatinina_def)

subsection \<open>C5: the tiers of the cold ischemia time\<close>

text \<open>
  C5. The ischemia factor awards 15 points on [12, 20], 25 points on [21, 28], 35 points
  above 28 and 0 points otherwise, that is below 12 and strictly between 20 and 21 (11
  gives 0). The function returns a dictionary in which the label
  \<^verbatim>\<open>Tempo de Isquemia\<close> is absent when the award is 0 and carries the award otherwise.
\<close>

theorem ischemia_tiers:
  "pontos_isquemia 11 = 0 \<and> pontos_isquemia 12 = 15 \<and> pontos_isquemia 20 = 15 \<and>
   pontos_isquemia 21 = 25 \<and> pontos_isquemia 28 = 25 \<and> pontos_isquemia 29 = 35 \<and>
   (12 \<le> tempo_isquemia \<and> tempo_isquemia \<le> 20 \<longrightarrow> pontos_isquemia tempo_isquemia = 15) \<and>
   (21 \<le> tempo_isquemia \<and> tempo_isquemia \<le> 28 \<longrightarrow> pontos_isquemia tempo_isquemia = 25) \<and>
   (28 < tempo_isquemia \<longrightarrow> pontos_isquemia tempo_isquemia = 35) \<and>
   (tempo_isquemia < 12 \<or> 20 < tempo_isquemia \<and> tempo_isquemia < 21 \<longrightarrow>
      pontos_isquemia tempo_isquemia = 0) \<and>
   (\<exists>percentage contributions.
      calcular_score_risco idade creatinina has dm tempo_isquemia pcr hcv =
        Inr (percentage, contributions) \<and>
      map_of contributions ''Tempo de Isquemia'' =
        (if 12 \<le> tempo_isquemia \<and> tempo_isquemia \<le> 20 then Some 15
         else if 21 \<le> tempo_isquemia \<and> tempo_isquemia \<le> 28 then Some 25
         else if 28 < tempo_isquemia then Some 35
         else None))"
proof -
  have tiers: "pontos_isquemia 11 = 0 \<and> pontos_isquemia 12 = 15 \<and> pontos_isquemia 20 = 15 \<and>
      pontos_isquemia 21 = 25 \<and> pontos_isquemia 28 = 25 \<and> pontos_isquemia 29 = 35"
    by (simp add: pontos_isquemia_def)
  have t1: "12 \<le> tempo_isquemia \<and> tempo_isquemia \<le> 20 \<longrightarrow> pontos_isquemia tempo_isquemia = 15"
    by (simp add: pontos_isquemia_def)
  have t2: "21 \<le> tempo_isquemia \<and> tempo_isquemia \<le> 28 \<longrightarrow> pontos_isquemia tempo_isquemia = 25"
    by (simp add: pontos_isquemia_def)
  have t3: "28 < tempo_isquemia \<longrightarrow> pontos_isquemia tempo_isquemia = 35"
    by (simp add: pontos_isquemia_def)
  have t0: "tempo_isquemia < 12 \<or> 20 < tempo_isquemia \<and> tempo_isquemia < 21 \<longrightarrow>
      pontos_isquemia tempo_isquemia = 0"
    by (auto simp: pontos_isquemia_def)
  have "map_of (fatores idade creatinina has dm tempo_isquemia pcr hcv) ''Tempo de Isquemia'' =
      (if 12 \<le> tempo_isquemia \<and> tempo_isquemia \<le> 20 then Some 15
       else if 21 \<le> tempo_isquemia \<and> tempo_isquemia \<le> 28 then Some 25
       else if 28 < tempo_isquemia then Some 35
       else None)"
    using map_of_isquemia [of idade creatinina has dm tempo_isquemia pcr hcv]
    by (simp add: label_isquemia_def pontos_isquemia_def)
  with calcular_score_risco_fatores [of idade creatinina has dm tempo_isquemia pcr hcv]
  have dict: "\<exists>percentage contributions.
      calcular_score_risco idade creatinina has dm tempo_isquemia pcr hcv =
        Inr (percentage, contributions) \<and>
      map_of contributions ''Tempo de Isquemia'' =
        (if 12 \<le> tempo_isquemia \<and> tempo_isquemia \<le> 20 then Some 15
         else if 21 \<le> tempo_isquemia \<and> tempo_isquemia \<le> 28 then Some 25
         else if 28 < tempo_isquemia then Some 35
         else None)"
    by blast
  from tiers t1 t2 t3 t0 dict show ?thesis by blast
qed

theorem ischemia_tiers_witness:
  "(21 :: rat) \<le> 24 \<and> (24 :: rat) \<le> 28 \<and> pontos_isquemia 24 = 25 \<and>
   (\<exists>percentage contributions.
      calcular_score_risco 30 1 False False 24 False False = Inr (percentage, contributions) \<and>
      map_of contributions ''Tempo de Isquemia'' = Some 25)"
  using ischemia_tiers [of 24 30 1 False False False False]
  by (simp add: pontos_isquemia_def)

subsection \<open>C6: zero percentage, empty dictionary, no factor\<close>

text \<open>
  C6. For every in-domain donor profile three statements are equivalent: the returned
  percentage is 0; the returned dictionary is empty; every factor is in its zero-point
  tier or false. The last one is written twice, with the points of the three tiered
  factors and with their thresholds.
\<close>

theorem zero_iff_empty_iff_no_factor:
  assumes "in_domain idade creatinina tempo_isquemia"
  shows "\<exists>percentage contributions.
           calcular_score_risco idade creatinina has dm tempo_isquemia pcr hcv =
             Inr (Finite percentage, contributions) \<and>
           (percentage = 0) = (contributions = []) \<and>
           (contributions = []) =
             (pontos_idade idade = 0 \<and> pontos_creatinina creatinina = 0 \<and> \<not> has \<and> \<not> dm \<and>
              pontos_isquemia tempo_isquemia = 0 \<and> \<not> pcr \<and> \<not> hcv) \<and>
           (contributions = []) =
             (idade < 40 \<and> creatinina < 3 / 2 \<and> \<not> has \<and> \<not> dm \<and>
              (tempo_isquemia < 12 \<or> 20 < tempo_isquemia \<and> tempo_isquemia < 21) \<and>
              \<not> pcr \<and> \<not> hcv)"
proof -
  let ?b = "bruto idade creatinina has dm tempo_isquemia pcr hcv"
  let ?f = "fatores idade creatinina has dm tempo_isquemia pcr hcv"
  let ?z = "pontos_idade idade = 0 \<and> pontos_creatinina creatinina = 0 \<and> \<not> has \<and> \<not> dm \<and>
      pontos_isquemia tempo_isquemia = 0 \<and> \<not> pcr \<and> \<not> hcv"
  from calcular_score_risco_eq [of idade creatinina has dm tempo_isquemia pcr hcv]
  obtain p where R:
      "calcular_score_risco idade creatinina has dm tempo_isquemia pcr hcv = Inr (Finite p, ?f)"
      "(p = 0) = (?b = 0)"
    by blast
  have z: "(?f = []) = ?z"
    by (rule fatores_Nil_iff)
  have b: "(?b = 0) = ?z"
    by (rule bruto_zero_iff)
  have i: "(pontos_idade idade = 0) = (idade < 40)"
    by (simp add: pontos_idade_def)
  have c: "(pontos_creatinina creatinina = 0) = (creatinina < 3 / 2)"
    by (simp add: pontos_creatinina_def)
  have t: "(pontos_isquemia tempo_isquemia = 0) =
      (tempo_isquemia < 12 \<or> 20 < tempo_isquemia \<and> tempo_isquemia < 21)"
    by (auto simp: pontos_isquemia_def)
  have e1: "(p = 0) = (?f = [])"
    using R(2) z b by blast
  have e3: "(?f = []) =
      (idade < 40 \<and> creatinina < 3 / 2 \<and> \<not> has \<and> \<not> dm \<and>
       (tempo_isquemia < 12 \<or> 20 < tempo_isquemia \<and> tempo_isquemia < 21) \<and>
       \<not> pcr \<and> \<not> hcv)"
    using z i c t by blast
  from R(1) e1 z e3 show ?thesis by blast
qed

theorem zero_iff_empty_iff_no_factor_witness:
  "in_domain 30 1 5 \<and>
   (\<exists>percentage contributions.
      calcular_score_risco 30 1 False False 5 False False =
        Inr (Finite percentage, contributions) \<and>
      percentage = 0 \<and> contributions = []) \<and>
   in_domain 55 (6 / 5) 10 \<and>
   (\<exists>percentage contributions.
      calcular_score_risco 55 (6 / 5) True False 10 False False =
        Inr (Finite percentage, contributions) \<and>
      percentage \<noteq> 0 \<and> contributions \<noteq> [])"
proof -
  have d1: "in_domain 30 1 5" and d2: "in_domain 55 (6 / 5) 10"
    by (simp_all add: in_domain_def)
  from zero_iff_empty_iff_no_factor [OF d1, of False False False False]
  have "\<exists>percentage contributions.
      calcular_score_risco 30 1 False False 5 False False =
        Inr (Finite percentage, contributions) \<and>
      percentage = 0 \<and> contributions = []"
    by (simp add: pontos_idade_def pontos_creatinina_def pontos_isquemia_def)
  moreover from zero_iff_empty_iff_no_factor [OF d2, of True False False False]
  have "\<exists>percentage contributions.
      calcular_score_risco 55 (6 / 5) True False 10 False False =
        Inr (Finite percentage, contributions) \<and>
      percentage \<noteq> 0 \<and> contributions \<noteq> []"
    by auto
  ultimately show ?thesis using d1 d2 by blast
qed

subsection \<open>C7: every recorded contribution is positive\<close>

text \<open>
  C7. For every in-domain donor profile every value in the returned dictionary is
  strictly positive. A flag (hypertension, diabetes, cardiac arrest, hepatitis C) has
  its fixed points under its label when it is true, and no entry at all under its label
  when it is false.
\<close>

theorem contributions_positive:
  assumes "in_domain idade creatinina tempo_isquemia"
  shows "\<exists>percentage contributions.
           calcular_score_risco idade creatinina has dm tempo_isquemia pcr hcv =
             Inr (percentage, contributions) \<and>
           (\<forall>(k, v) \<in> set contributions. 0 < v) \<and>
           map_of contributions label_has = (if has then Some 25 else None) \<and>
           map_of contributions ''Diabetes'' = (if dm then Some 30 else None) \<and>
           map_of contributions ''PCR'' = (if pcr then Some 15 else None) \<and>
           map_of contributions ''Hepatite C'' = (if hcv then Some 10 else None) \<and>
           (\<not> has \<longrightarrow> label_has \<notin> fst ` set contributions) \<and>
           (\<not> dm \<longrightarrow> ''Diabetes'' \<notin> fst ` set contributions) \<and>
           (\<not> pcr \<longrightarrow> ''PCR'' \<notin> fst ` set contributions) \<and>
           (\<not> hcv \<longrightarrow> ''Hepatite C'' \<notin> fst ` set contributions)"
proof -
  let ?f = "fatores idade creatinina has dm tempo_isquemia pcr hcv"
  have pos: "\<forall>(k, v) \<in> set ?f. 0 < v"
    using values_positive [of _ _ idade creatinina has dm tempo_isquemia pcr hcv] by blast
  have m1: "map_of ?f label_has = (if has then Some 25 else None)"
    by (rule map_of_flags)
  have m2: "map_of ?f ''Diabetes'' = (if dm then Some 30 else None)"
    using map_of_flags(2) [of idade creatinina has dm tempo_isquemia pcr hcv]
    by (simp only: label_dm_def)
  have m3: "map_of ?f ''PCR'' = (if pcr then Some 15 else None)"
    using map_of_flags(3) [of idade creatinina has dm tempo_isquemia pcr hcv]
    by (simp only: label_pcr_def)
  have m4: "map_of ?f ''Hepatite C'' = (if hcv then Some 10 else None)"
    using map_of_flags(4) [of idade creatinina has dm tempo_isquemia pcr hcv]
    by (simp only: label_hcv_def)
  have a1: "\<not> has \<longrightarrow> label_has \<notin> fst ` set ?f"
    using m1 by (auto simp: map_of_eq_None_iff [symmetric])
  have a2: "\<not> dm \<longrightarrow> ''Diabetes'' \<notin> fst ` set ?f"
    using m2 by (auto simp: map_of_eq_None_iff [symmetric])
  have a3: "\<not> pcr \<longrightarrow> ''PCR'' \<notin> fst ` set ?f"
    using m3 by (auto simp: map_of_eq_None_iff [symmetric])
  have a4: "\<not> hcv \<longrightarrow> ''Hepatite C'' \<notin> fst ` set ?f"
    using m4 by (auto simp: map_of_eq_None_iff [symmetric])
  from calcular_score_risco_fatores [of idade creatinina has dm tempo_isquemia pcr hcv]
    pos m1 m2 m3 m4 a1 a2 a3 a4
  show ?thesis by blast
qed

theorem contributions_positive_witness:
  "in_domain 55 (6 / 5) 10 \<and>
   (\<exists>percentage contributions.
      calcular_score_risco 55 (6 / 5) True False 10 False False =
        Inr (percentage, contributions) \<and>
      contributions = [(''Idade'', 25), (label_has, 25)] \<and>
      map_of contributions ''Diabetes'' = None \<and>
      ''Diabetes'' \<notin> fst ` set contributions)"
proof -
  have d: "in_domain 55 (6 / 5) 10"
    by (simp add: in_domain_def)
  have f: "fatores 55 (6 / 5) True False 10 False False = [(''Idade'', 25), (label_has, 25)]"
    by (simp add: fatores_def entry_def flag_def pontos_idade_def pontos_creatinina_def
        pontos_isquemia_def label_idade_def)
  obtain pf where r: "calcular_score_risco 55 (6 / 5) True False 10 False False =
      Inr (pf, [(''Idade'', 25), (label_has, 25)])"
    using calcular_score_risco_fatores [of 55 "6 / 5" True False 10 False False]
    unfolding f by blast
  from contributions_positive [OF d, of True False False False] r d
  show ?thesis by auto
qed

subsection \<open>C8: the three risk bands\<close>

text \<open>
  C8. The band is low exactly below 30, moderate exactly from 30 (included) to 60
  (excluded) and high exactly from 60 on. The band never decreases when the percentage
  grows, and on [0, 100] the three bands are the contiguous intervals [0, 30), [30, 60)
  and [60, 100].
\<close>

theorem classify_bands:
  "(classify p = RISCO_BAIXO) = (p < 30) \<and>
   (classify p = RISCO_MODERADO) = (30 \<le> p \<and> p < 60) \<and>
   (classify p = RISCO_ALTO) = (60 \<le> p) \<and>
   (p \<le> q \<longrightarrow> band_rank (classify p) \<le> band_rank (classify q)) \<and>
   {x. 0 \<le> x \<and> x \<le> 100 \<and> classify x = RISCO_BAIXO} = {0 ..< 30} \<and>
   {x. 0 \<le> x \<and> x \<le> 100 \<and> classify x = RISCO_MODERADO} = {30 ..< 60} \<and>
   {x. 0 \<le> x \<and> x \<le> 100 \<and> classify x = RISCO_ALTO} = {60 .. 100}"
proof -
  have low: "(classify x = RISCO_BAIXO) = (x < 30)" for x
    by (simp add: classify_def)
  have mid: "(classify x = RISCO_MODERADO) = (30 \<le> x \<and> x < 60)" for x
    by (simp add: classify_def)
  have high: "(classify x = RISCO_ALTO) = (60 \<le> x)" for x
    by (auto simp: classify_def)
  have mono: "p \<le> q \<longrightarrow> band_rank (classify p) \<le> band_rank (classify q)"
    by (simp add: classify_def band_rank_def)
  have s1: "{x. 0 \<le> x \<and> x \<le> 100 \<and> classify x = RISCO_BAIXO} = {0 ..< 30}"
    unfolding low by auto
  have s2: "{x. 0 \<le> x \<and> x \<le> 100 \<and> classify x = RISCO_MODERADO} = {30 ..< 60}"
    unfolding mid by auto
  have s3: "{x. 0 \<le> x \<and> x \<le> 100 \<and> classify x = RISCO_ALTO} = {60 .. 100}"
    unfolding high by auto
  from low [of p] mid [of p] high [of p] mono s1 s2 s3 show ?thesis by blast
qed

theorem classify_bands_witness:
  "(500 / 19 :: rat) \<le> 100 \<and> classify (500 / 19) = RISCO_BAIXO \<and>
   classify 30 = RISCO_MODERADO \<and> classify 60 = RISCO_ALTO \<and> classify 100 = RISCO_ALTO \<and>
   band_rank (classify (500 / 19)) \<le> band_rank (classify 100)"
  using classify_bands [of "500 / 19" 100] classify_bands [of 30 30] classify_bands [of 60 60]
    classify_bands [of 100 100]
  by (simp add: band_rank_def)

subsection \<open>C9: the scoring function never fails\<close>

text \<open>
  C9. For every donor profile, in its domain or not, the function returns a percentage
  and a dictionary and never an error. Its only fallible step is the division by the
  constant 190: the divisor is never zero, and the quotient of a sum between 0 and 190
  is never too large for a float.
\<close>

theorem score_total:
  "(\<exists>percentage contributions.
      calcular_score_risco idade creatinina has dm tempo_isquemia pcr hcv =
        Inr (percentage, contributions)) \<and>
   (\<forall>e. calcular_score_risco idade creatinina has dm tempo_isquemia pcr hcv \<noteq> Inl e) \<and>
   (\<forall>n. truediv n 190 \<noteq> Inl ZeroDivisionError) \<and>
   (\<forall>n. 0 \<le> n \<and> n \<le> 190 \<longrightarrow> (\<exists>q. truediv n 190 = Inr q))"
proof (intro conjI allI impI)
  obtain pf where r: "calcular_score_risco idade creatinina has dm tempo_isquemia pcr hcv =
      Inr (pf, fatores idade creatinina has dm tempo_isquemia pcr hcv)"
    using calcular_score_risco_fatores [of idade creatinina has dm tempo_isquemia pcr hcv]
    by blast
  then show "\<exists>percentage contributions.
      calcular_score_risco idade creatinina has dm tempo_isquemia pcr hcv =
        Inr (percentage, contributions)"
    by blast
  show "calcular_score_risco idade creatinina has dm tempo_isquemia pcr hcv \<noteq> Inl e" for e
    by (simp only: r sum.distinct not_False_eq_True)
  show "truediv n 190 \<noteq> Inl ZeroDivisionError" for n
    by (simp add: truediv_def split: py_float.split)
  show "\<exists>q. truediv n 190 = Inr q" if "0 \<le> n \<and> n \<le> 190" for n
  proof -
    from that have "0 \<le> n" "n \<le> 190" by simp_all
    from percentual_props [OF this] show ?thesis by blast
  qed
qed

theorem score_total_witness:
  "in_domain 65 3 30 \<and>
   (\<exists>percentage contributions.
      calcular_score_risco 65 3 True True 30 True True = Inr (percentage, contributions)) \<and>
   (\<exists>q. truediv 190 190 = Inr q)"
  using score_total [of 65 3 True True 30 True True]
  by (simp add: in_domain_def)

subsection \<open>C10: the gap between 20 and 21 hours\<close>

text \<open>
  C10. For a cold ischemia time strictly between 20 and 21 hours no branch of the chain
  matches: the factor contributes 0 points and the label \<^verbatim>\<open>Tempo de Isquemia\<close> is absent
  from the returned dictionary, although 20 hours gives 15 points and 21 hours gives 25.
\<close>

theorem ischemia_gap:
  assumes "20 < tempo_isquemia" and "tempo_isquemia < 21"
  shows "pontos_isquemia tempo_isquemia = 0 \<and>
         pontos_isquemia 20 = 15 \<and> pontos_isquemia 21 = 25 \<and>
         (\<exists>percentage contributions.
            calcular_score_risco idade creatinina has dm tempo_isquemia pcr hcv =
              Inr (percentage, contributions) \<and>
            map_of contributions ''Tempo de Isquemia'' = None \<and>
            ''Tempo de Isquemia'' \<notin> fst ` set contributions)"
proof -
  have zero: "pontos_isquemia tempo_isquemia = 0"
    using assms by (simp add: pontos_isquemia_def)
  have ends: "pontos_isquemia 20 = 15 \<and> pontos_isquemia 21 = 25"
    by (simp add: pontos_isquemia_def)
  have none: "map_of (fatores idade creatinina has dm tempo_isquemia pcr hcv)
      ''Tempo de Isquemia'' = None"
    using map_of_isquemia [of idade creatinina has dm tempo_isquemia pcr hcv] zero
    by (simp add: label_isquemia_def)
  then have absent: "''Tempo de Isquemia'' \<notin>
      fst ` set (fatores idade creatinina has dm tempo_isquemia pcr hcv)"
    by (simp add: map_of_eq_None_iff)
  from calcular_score_risco_fatores [of idade creatinina has dm tempo_isquemia pcr hcv] none absent
  have "\<exists>percentage contributions.
      calcular_score_risco idade creatinina has dm tempo_isquemia pcr hcv =
        Inr (percentage, contributions) \<and>
      map_of contributions ''Tempo de Isquemia'' = None \<and>
      ''Tempo de Isquemia'' \<notin> fst ` set contributions"
    by blast
  with zero ends show ?thesis by blast
qed

theorem ischemia_gap_witness:
  "in_domain 30 1 (41 / 2) \<and>
   (20 :: rat) < 41 / 2 \<and> (41 / 2 :: rat) < 21 \<and> pontos_isquemia (41 / 2) = 0 \<and>
   (\<exists>percentage contributions.
      calcular_score_risco 30 1 False False (41 / 2) False False =
        Inr (percentage, contributions) \<and>
      map_of contributions ''Tempo de Isquemia'' = None)"
proof -
  have a: "(20 :: rat) < 41 / 2" and b: "(41 / 2 :: rat) < 21"
    by simp_all
  have d: "in_domain 30 1 (41 / 2)"
    by (simp add: in_domain_def)
  from ischemia_gap [OF a b, of 30 1 False False False False] a b d
  show ?thesis by blast
qed

end
